theory Spec2Isabelle
  imports Complex_Main
begin

section \<open>The motor controller of motor\_control\_ver1.3.2.py\<close>

text \<open>
  The program drives two motors through the pigpio PWM driver, one key press at a time.
  The embedding follows the file top to bottom: the class \<open>MotorController\<close>, the class
  \<open>KeyReader\<close>, and \<open>main\<close>.

  Conventions of the embedding.
  \<^item> Python's \<open>float\<close> is modelled by \<open>real\<close>: rounding is not part of the model. The
    \<open>int\<close> attribute \<open>power\<close> is an \<open>int\<close>, converted where Python multiplies it with a
    float.
  \<^item> An exception is a value \<open>Inl e\<close> of the result; a call that returns normally gives
    \<open>Inr ()\<close>.
  \<^item> The pigpio handle is a capability outside the repository. It is modelled by the list of
    the calls made on it, oldest first; a call is appended and never fails.
  \<^item> A method takes the controller and the driver log and returns both, so that what a
    method leaves alone is a statement about its result.
  \<^item> \<open>print\<close> and \<open>time.sleep\<close> have no effect on the controller, the driver or the
    terminal and are left out.
\<close>

subsection \<open>Exceptions and the driver capability\<close>

datatype error = KeyError string

datatype gpio_mode = OUTPUT

datatype pi_call =
    Set_mode int gpio_mode
  | Set_PWM_frequency int int
  | Set_PWM_range int int
  | Set_PWM_dutycycle int real
  | Pi_stop

type_synonym pigpio = "pi_call list"

type_synonym 'a outcome = "(error + unit) \<times> 'a"

subsection \<open>class MotorController\<close>

text \<open>
  \<open>pins\<close> is a Python dict from pin names to pin numbers. It is kept as the list of its
  items in insertion order, which is the order \<open>__init__\<close> walks it in; \<open>d[k]\<close> is
  \<open>getitem d k\<close> and raises \<open>KeyError\<close> on a missing key. \<open>balance\<close> is the two-element
  list \<open>[L, R]\<close>, only ever read and written at the indices 0 and 1: a pair.
  The attribute \<open>power\<close> is named \<open>power_val\<close>, since \<open>power\<close> is HOL's exponentiation; the
  attribute \<open>self.pi\<close> is the driver log that every method threads through.
\<close>

record controller =
  pins :: "(string \<times> int) list"
  freq :: int
  pwm_range :: int
  power_val :: int
  balance :: "real \<times> real"

definition getitem :: "(string \<times> int) list \<Rightarrow> string \<Rightarrow> error + int" where
  "getitem d k = (case map_of d k of None \<Rightarrow> Inl (KeyError k) | Some v \<Rightarrow> Inr v)"

text \<open>Lines 47-50: the body of the loop over \<open>self.pins.items()\<close>, and the loop.\<close>

definition init_pin :: "int \<Rightarrow> int \<Rightarrow> int \<Rightarrow> pigpio" where
  "init_pin f r pin_num =
     [Set_mode pin_num OUTPUT, Set_PWM_frequency pin_num f, Set_PWM_range pin_num r]"

definition init :: "pigpio \<Rightarrow> (string \<times> int) list \<Rightarrow> int \<Rightarrow> int \<Rightarrow> controller \<times> pigpio" where
  "init gpio ps f r =
     (\<lparr>pins = ps, freq = f, pwm_range = r, power_val = 80, balance = (1.0, 1.0)\<rparr>,
      gpio @ concat (map (\<lambda>(pin_name, pin_num). init_pin f r pin_num) ps))"

text \<open>Lines 56-72. The two duty cycles are the local variables of \<open>_apply_pwm\<close>.\<close>

definition duty_forward :: "real \<Rightarrow> real" where
  "duty_forward speed = max 0.0 speed"

definition duty_backward :: "real \<Rightarrow> real" where
  "duty_backward speed = max 0.0 (- speed)"

definition apply_pwm :: "int \<Rightarrow> int \<Rightarrow> real \<Rightarrow> pigpio \<Rightarrow> pigpio" where
  "apply_pwm forward_pin backward_pin speed gpio =
     gpio @ [Set_PWM_dutycycle forward_pin (duty_forward speed),
             Set_PWM_dutycycle backward_pin (duty_backward speed)]"

text \<open>
  Lines 74-100. Python evaluates the arguments of a call before the call: the two
  left-hand lookups come before the first \<open>_apply_pwm\<close>, the two right-hand lookups
  between the first and the second.
\<close>

definition set_speed :: "real \<Rightarrow> real \<Rightarrow> controller \<Rightarrow> pigpio \<Rightarrow> (controller \<times> pigpio) outcome" where
  "set_speed left_speed right_speed c gpio =
     (let left_actual = left_speed * fst (balance c);
          right_actual = right_speed * snd (balance c)
      in case getitem (pins c) ''L_f'' of
           Inl e \<Rightarrow> (Inl e, c, gpio)
         | Inr lf \<Rightarrow>
        (case getitem (pins c) ''L_b'' of
           Inl e \<Rightarrow> (Inl e, c, gpio)
         | Inr lb \<Rightarrow>
        (let gpio1 = apply_pwm lf lb left_actual gpio
         in case getitem (pins c) ''R_f'' of
           Inl e \<Rightarrow> (Inl e, c, gpio1)
         | Inr rf \<Rightarrow>
        (case getitem (pins c) ''R_b'' of
           Inl e \<Rightarrow> (Inl e, c, gpio1)
         | Inr rb \<Rightarrow> (Inr (), c, apply_pwm rf rb right_actual gpio1)))))"

text \<open>Lines 102-129: the motion commands.\<close>

definition stop :: "controller \<Rightarrow> pigpio \<Rightarrow> (controller \<times> pigpio) outcome" where
  "stop c gpio = set_speed 0.0 0.0 c gpio"

definition forward :: "controller \<Rightarrow> pigpio \<Rightarrow> (controller \<times> pigpio) outcome" where
  "forward c gpio = set_speed (of_int (power_val c)) (of_int (power_val c)) c gpio"

definition backward :: "controller \<Rightarrow> pigpio \<Rightarrow> (controller \<times> pigpio) outcome" where
  "backward c gpio = set_speed (of_int (- power_val c)) (of_int (- power_val c)) c gpio"

definition turn_left :: "controller \<Rightarrow> pigpio \<Rightarrow> (controller \<times> pigpio) outcome" where
  "turn_left c gpio = set_speed (of_int (- power_val c)) (of_int (power_val c)) c gpio"

definition turn_right :: "controller \<Rightarrow> pigpio \<Rightarrow> (controller \<times> pigpio) outcome" where
  "turn_right c gpio = set_speed (of_int (power_val c)) (of_int (- power_val c)) c gpio"

definition pivot_left :: "controller \<Rightarrow> pigpio \<Rightarrow> (controller \<times> pigpio) outcome" where
  "pivot_left c gpio = set_speed (of_int (power_val c)) 0.0 c gpio"

definition pivot_right :: "controller \<Rightarrow> pigpio \<Rightarrow> (controller \<times> pigpio) outcome" where
  "pivot_right c gpio = set_speed 0.0 (of_int (power_val c)) c gpio"

text \<open>Lines 132-148: the adjustment commands.\<close>

definition adjust_power :: "int \<Rightarrow> controller \<Rightarrow> pigpio \<Rightarrow> (controller \<times> pigpio) outcome" where
  "adjust_power delta c gpio =
     (Inr (), c\<lparr>power_val := max 0 (min 100 (power_val c + delta))\<rparr>, gpio)"

definition adjust_balance :: "real \<Rightarrow> controller \<Rightarrow> pigpio \<Rightarrow> (controller \<times> pigpio) outcome" where
  "adjust_balance delta c gpio =
     (let new_left = fst (balance c) + delta;
          new_right = snd (balance c) - delta;
          c1 = c\<lparr>balance := (max 0.5 (min 1.5 new_left), snd (balance c))\<rparr>;
          c2 = c1\<lparr>balance := (fst (balance c1), max 0.5 (min 1.5 new_right))\<rparr>
      in (Inr (), c2, gpio))"

subsection \<open>class KeyReader\<close>

text \<open>
  The terminal is the pair of local-mode flags that \<open>tty.setcbreak\<close> clears.
  \<open>__enter__\<close> saves the attributes of standard input and switches to cbreak mode;
  \<open>__exit__\<close> writes the saved attributes back and returns \<open>None\<close>, so an exception
  that left the \<open>with\<close> block goes on propagating.
\<close>

record termios =
  ECHO :: bool
  ICANON :: bool

record key_reader =
  fd :: int
  orig :: termios

definition setcbreak :: "termios \<Rightarrow> termios" where
  "setcbreak t = t\<lparr>ECHO := False, ICANON := False\<rparr>"

definition enter :: "termios \<Rightarrow> key_reader \<times> termios" where
  "enter tty = (\<lparr>fd = 0, orig = tty\<rparr>, setcbreak tty)"

definition exit_reader :: "key_reader \<Rightarrow> termios \<Rightarrow> termios" where
  "exit_reader reader tty = orig reader"

text \<open>
  \<open>get\<close> lower-cases what \<open>sys.stdin.read(1)\<close> returned: the empty string or one
  character. The model lower-cases the ASCII letters and leaves every other character.
\<close>

definition lower_char :: "char \<Rightarrow> char" where
  "lower_char ch =
     (case map_of (zip ''ABCDEFGHIJKLMNOPQRSTUVWXYZ'' ''abcdefghijklmnopqrstuvwxyz'') ch of
        None \<Rightarrow> ch
      | Some l \<Rightarrow> l)"

definition lower :: "string \<Rightarrow> string" where
  "lower s = map lower_char s"

definition get :: "string \<Rightarrow> string" where
  "get ch = lower ch"

subsection \<open>main\<close>

definition main_pins :: "(string \<times> int) list" where
  "main_pins = [(''L_A1'', 12), (''L_A2'', 13), (''R_B1'', 18), (''R_B2'', 19)]"

text \<open>Lines 191-203: the table from keys to bound methods; \<open>actions.get(key)\<close> is \<open>actions key\<close>.\<close>

definition actions :: "string \<Rightarrow> (controller \<Rightarrow> pigpio \<Rightarrow> (controller \<times> pigpio) outcome) option" where
  "actions = map_of
     [(''w'', forward),
      (''s'', backward),
      (''a'', turn_left),
      (''d'', turn_right),
      (''q'', pivot_left),
      (''e'', pivot_right),
      (''k'', adjust_power 5),
      (''l'', adjust_power (- 5)),
      ('','', adjust_balance 0.05),
      (''.'', adjust_balance (- 0.05)),
      ('' '', stop)]"

text \<open>
  Lines 209-219. Standard input is the list of the strings that the successive calls of
  \<open>sys.stdin.read(1)\<close> return. One turn of the loop either goes on to the next read
  (\<open>Continue\<close>), leaves the loop at the exit key (\<open>Break\<close>), or lets the exception of the
  action escape (\<open>Raise\<close>).
\<close>

datatype step = Continue controller pigpio | Break controller pigpio | Raise error controller pigpio

definition loop_body :: "string \<Rightarrow> controller \<Rightarrow> pigpio \<Rightarrow> step" where
  "loop_body ch c gpio =
     (let key = get ch
      in if key = [] then Continue c gpio
         else if key = ''x'' then Break c gpio
         else (case actions key of
                 None \<Rightarrow> Continue c gpio
               | Some action \<Rightarrow>
                   (case action c gpio of
                      (Inl e, c', gpio') \<Rightarrow> Raise e c' gpio'
                    | (Inr u, c', gpio') \<Rightarrow> Continue c' gpio')))"

text \<open>
  The loop has no exit of its own: when the reads run out without the exit key and
  without an exception, the program is still inside \<open>while True\<close> and the result is
  \<open>None\<close>.
\<close>

fun main_loop :: "string list \<Rightarrow> controller \<Rightarrow> pigpio \<Rightarrow> ((controller \<times> pigpio) outcome) option" where
  "main_loop [] c gpio = None"
| "main_loop (ch # rest) c gpio =
     (case loop_body ch c gpio of
        Continue c' gpio' \<Rightarrow> main_loop rest c' gpio'
      | Break c' gpio' \<Rightarrow> Some (Inr (), c', gpio')
      | Raise e c' gpio' \<Rightarrow> Some (Inl e, c', gpio'))"

text \<open>
  Lines 186-224, with the dict of line 187 as a parameter. The \<open>with\<close> block ends with
  \<open>__exit__\<close> on both ways out of the loop; lines 222-223 follow the block and run only
  when no exception is propagating. The result holds the outcome, the controller, the
  driver log and the terminal attributes at the end.
\<close>

definition run :: "(string \<times> int) list \<Rightarrow> termios \<Rightarrow> string list \<Rightarrow> ((controller \<times> pigpio \<times> termios) outcome) option" where
  "run ps tty0 stdin =
     (let (controller, gpio1) = init [] ps 50 100;
          (reader, tty1) = enter tty0
      in case main_loop stdin controller gpio1 of
           None \<Rightarrow> None
         | Some (Inl e, c2, gpio2) \<Rightarrow> Some (Inl e, c2, gpio2, exit_reader reader tty1)
         | Some (Inr u, c2, gpio2) \<Rightarrow>
             (let tty2 = exit_reader reader tty1
              in case stop c2 gpio2 of
                   (Inl e, c3, gpio3) \<Rightarrow> Some (Inl e, c3, gpio3, tty2)
                 | (Inr u', c3, gpio3) \<Rightarrow> Some (Inr (), c3, gpio3 @ [Pi_stop], tty2)))"


subsection \<open>Definitions used to state the properties\<close>

text \<open>
  The clamp of the specification, written as its three cases; the code computes it as
  \<open>max lo (min hi x)\<close>.
\<close>

definition spec_clamp :: "'a::linorder \<Rightarrow> 'a \<Rightarrow> 'a \<Rightarrow> 'a" where
  "spec_clamp x lo hi = (if x < lo then lo else if hi < x then hi else x)"

text \<open>
  A pins dict that has the four keys \<open>set_speed\<close> reads, on the pin numbers of \<open>main\<close>,
  and a terminal in its usual line mode: the inputs of the worked examples.
\<close>

definition example_pins :: "(string \<times> int) list" where
  "example_pins = [(''L_f'', 12), (''L_b'', 13), (''R_f'', 18), (''R_b'', 19)]"


section \<open>Properties\<close>

subsection \<open>Shared facts\<close>

lemma getitem_main_pins_L_f: "getitem main_pins ''L_f'' = Inl (KeyError ''L_f'')"
  by (simp add: getitem_def main_pins_def)

lemma set_speed_main_pins:
  "set_speed l r (c\<lparr>pins := main_pins\<rparr>) gpio =
     (Inl (KeyError ''L_f''), c\<lparr>pins := main_pins\<rparr>, gpio)"
  by (simp add: set_speed_def getitem_main_pins_L_f)

lemma set_speed_controller: "fst (snd (set_speed l r c gpio)) = c"
  by (simp add: set_speed_def Let_def split: sum.splits)

lemma get_simps:
  "get [] = []"
  "get (ch # s) = lower_char ch # get s"
  by (simp_all add: get_def lower_def)

subsection \<open>The pin names of main and of set\_speed\<close>

text \<open>
  C1. The claim: on a controller built as in \<open>main\<close>, every motion command completes and
  sends both duty-cycle pairs. The code does otherwise: the controller of \<open>main\<close> has the
  keys \<open>L_A1\<close>, \<open>L_A2\<close>, \<open>R_B1\<close>, \<open>R_B2\<close>, in every state it can reach, and \<open>set_speed\<close>
  reads the key \<open>L_f\<close> first. Each of the seven commands raises \<open>KeyError\<close> on that key
  and leaves the driver log as it was: no duty cycle is sent.
\<close>

theorem motion_commands_raise_on_main_pins:
  "pins (fst (init gpio0 main_pins 50 100)) = main_pins
   \<and> forward (c\<lparr>pins := main_pins\<rparr>) gpio = (Inl (KeyError ''L_f''), c\<lparr>pins := main_pins\<rparr>, gpio)
   \<and> backward (c\<lparr>pins := main_pins\<rparr>) gpio = (Inl (KeyError ''L_f''), c\<lparr>pins := main_pins\<rparr>, gpio)
   \<and> turn_left (c\<lparr>pins := main_pins\<rparr>) gpio = (Inl (KeyError ''L_f''), c\<lparr>pins := main_pins\<rparr>, gpio)
   \<and> turn_right (c\<lparr>pins := main_pins\<rparr>) gpio = (Inl (KeyError ''L_f''), c\<lparr>pins := main_pins\<rparr>, gpio)
   \<and> pivot_left (c\<lparr>pins := main_pins\<rparr>) gpio = (Inl (KeyError ''L_f''), c\<lparr>pins := main_pins\<rparr>, gpio)
   \<and> pivot_right (c\<lparr>pins := main_pins\<rparr>) gpio = (Inl (KeyError ''L_f''), c\<lparr>pins := main_pins\<rparr>, gpio)
   \<and> stop (c\<lparr>pins := main_pins\<rparr>) gpio = (Inl (KeyError ''L_f''), c\<lparr>pins := main_pins\<rparr>, gpio)"
  by (simp add: init_def forward_def backward_def turn_left_def turn_right_def
      pivot_left_def pivot_right_def stop_def set_speed_main_pins)

subsection \<open>The adjustment commands\<close>

text \<open>
  C4. \<open>adjust_power\<close> is the saturating clamp: from any power and for any integer delta
  the new power is \<open>clamp(p + delta, 0, 100)\<close>, so it lies in [0, 100]. From the controller
  of \<open>main\<close> (power 80), three presses of \<open>k\<close> give 95 and a fourth gives 100.
\<close>

theorem adjust_power_is_clamp:
  "power_val (fst (snd (adjust_power delta c gpio))) = spec_clamp (power_val c + delta) 0 100
   \<and> 0 \<le> power_val (fst (snd (adjust_power delta c gpio)))
   \<and> power_val (fst (snd (adjust_power delta c gpio))) \<le> 100
   \<and> power_val (fst (init gpio0 main_pins 50 100)) = 80
   \<and> map_option (\<lambda>r. power_val (fst (snd r)))
        (main_loop [''k'', ''k'', ''k'', ''x'']
           (fst (init gpio0 main_pins 50 100)) (snd (init gpio0 main_pins 50 100))) = Some 95
   \<and> map_option (\<lambda>r. power_val (fst (snd r)))
        (main_loop [''k'', ''k'', ''k'', ''k'', ''x'']
           (fst (init gpio0 main_pins 50 100)) (snd (init gpio0 main_pins 50 100))) = Some 100"
  by (simp add: adjust_power_def spec_clamp_def init_def loop_body_def get_simps
      lower_char_def actions_def)

text \<open>
  C5. \<open>adjust_balance\<close> clamps each side on its own, from the values before the call: the
  new balance is \<open>(clamp(L + delta, 0.5, 1.5), clamp(R - delta, 0.5, 1.5))\<close>, and the new
  right factor is the same whatever the left factor was.
\<close>

theorem adjust_balance_is_clamp:
  "balance (fst (snd (adjust_balance delta c gpio))) =
     (spec_clamp (fst (balance c) + delta) 0.5 1.5, spec_clamp (snd (balance c) - delta) 0.5 1.5)
   \<and> snd (balance (fst (snd (adjust_balance delta (c\<lparr>balance := (L, R)\<rparr>) gpio)))) =
     snd (balance (fst (snd (adjust_balance delta (c\<lparr>balance := (L', R)\<rparr>) gpio))))"
  by (simp add: adjust_balance_def spec_clamp_def Let_def)

subsection \<open>The motion commands\<close>

text \<open>
  C6. Each motion command is \<open>set_speed\<close> at its pair of signed speeds, for every power
  \<open>p\<close>: forward \<open>(p, p)\<close>, backward \<open>(-p, -p)\<close>, turn\_left \<open>(-p, p)\<close>, turn\_right \<open>(p, -p)\<close>,
  pivot\_left \<open>(p, 0)\<close>, pivot\_right \<open>(0, p)\<close>, stop \<open>(0, 0)\<close>.
\<close>

theorem motion_command_speeds:
  "forward c gpio = set_speed (real_of_int (power_val c)) (real_of_int (power_val c)) c gpio
   \<and> backward c gpio = set_speed (- real_of_int (power_val c)) (- real_of_int (power_val c)) c gpio
   \<and> turn_left c gpio = set_speed (- real_of_int (power_val c)) (real_of_int (power_val c)) c gpio
   \<and> turn_right c gpio = set_speed (real_of_int (power_val c)) (- real_of_int (power_val c)) c gpio
   \<and> pivot_left c gpio = set_speed (real_of_int (power_val c)) 0 c gpio
   \<and> pivot_right c gpio = set_speed 0 (real_of_int (power_val c)) c gpio
   \<and> stop c gpio = set_speed 0 0 c gpio"
  by (simp add: forward_def backward_def turn_left_def turn_right_def
      pivot_left_def pivot_right_def stop_def)

text \<open>
  C8. The two duty cycles are functions of the signed speed alone: \<open>max(0, s)\<close> forward and
  \<open>max(0, -s)\<close> backward, and \<open>_apply_pwm\<close> writes exactly these two. Exactly one of them is
  nonzero when \<open>s\<close> is not 0, both are 0 when \<open>s\<close> is 0, and neither exceeds \<open>|s|\<close>.
\<close>

theorem duty_cycle_derivation:
  "apply_pwm forward_pin backward_pin s gpio =
     gpio @ [Set_PWM_dutycycle forward_pin (max 0 s), Set_PWM_dutycycle backward_pin (max 0 (- s))]
   \<and> duty_forward s = max 0 s
   \<and> duty_backward s = max 0 (- s)
   \<and> ((duty_forward s \<noteq> 0) \<noteq> (duty_backward s \<noteq> 0)) = (s \<noteq> 0)
   \<and> (duty_forward s = 0 \<and> duty_backward s = 0) = (s = 0)
   \<and> duty_forward s \<le> \<bar>s\<bar>
   \<and> duty_backward s \<le> \<bar>s\<bar>"
  by (auto simp add: apply_pwm_def duty_forward_def duty_backward_def max_def)

text \<open>
  C10. A motion command returns the controller it was given, whether it completes or
  raises: power and both balance factors are what they were before the call.
\<close>

theorem motion_commands_keep_controller:
  "fst (snd (forward c gpio)) = c
   \<and> fst (snd (backward c gpio)) = c
   \<and> fst (snd (turn_left c gpio)) = c
   \<and> fst (snd (turn_right c gpio)) = c
   \<and> fst (snd (pivot_left c gpio)) = c
   \<and> fst (snd (pivot_right c gpio)) = c
   \<and> fst (snd (stop c gpio)) = c"
  by (simp add: forward_def backward_def turn_left_def turn_right_def
      pivot_left_def pivot_right_def stop_def set_speed_controller)

subsection \<open>Balance scaling and the range of the duty cycles\<close>

lemma set_speed_wired:
  assumes "getitem (pins c) ''L_f'' = Inr lf" and "getitem (pins c) ''L_b'' = Inr lb"
    and "getitem (pins c) ''R_f'' = Inr rf" and "getitem (pins c) ''R_b'' = Inr rb"
  shows "set_speed l r c gpio =
     (Inr (), c, gpio @ [Set_PWM_dutycycle lf (duty_forward (l * fst (balance c))),
                         Set_PWM_dutycycle lb (duty_backward (l * fst (balance c))),
                         Set_PWM_dutycycle rf (duty_forward (r * snd (balance c))),
                         Set_PWM_dutycycle rb (duty_backward (r * snd (balance c)))])"
  using assms by (simp add: set_speed_def apply_pwm_def Let_def)

lemma getitem_example_pins:
  "getitem example_pins ''L_f'' = Inr 12" "getitem example_pins ''L_b'' = Inr 13"
  "getitem example_pins ''R_f'' = Inr 18" "getitem example_pins ''R_b'' = Inr 19"
  by (simp_all add: getitem_def example_pins_def)

text \<open>
  C7. The claim: for every motion command the speeds that reach the duty-cycle
  derivation are \<open>left_speed * left_factor\<close> and \<open>right_speed * right_factor\<close>, and with
  power 80 and balance (1.2, 0.8) \<open>forward\<close> writes the duty cycles 96 and 64 forward and 0
  backward. \<open>set_speed\<close> does compute the two products (lines 87-88), and on a pins dict
  with the keys it reads it writes exactly these duty cycles. On the pins dict of \<open>main\<close>
  it raises \<open>KeyError\<close> at the first lookup, at the power and balance of the claim as at
  the defaults, and writes nothing: the products never reach the driver.
\<close>

theorem forward_writes_no_duty_on_main_pins:
  "forward \<lparr>pins = main_pins, freq = 50, pwm_range = 100, power_val = 80,
            balance = (1.2, 0.8)\<rparr> gpio =
     (Inl (KeyError ''L_f''),
      \<lparr>pins = main_pins, freq = 50, pwm_range = 100, power_val = 80, balance = (1.2, 0.8)\<rparr>,
      gpio)
   \<and> forward (fst (init [] main_pins 50 100)) gpio =
     (Inl (KeyError ''L_f''), fst (init [] main_pins 50 100), gpio)
   \<and> forward \<lparr>pins = example_pins, freq = 50, pwm_range = 100, power_val = 80,
              balance = (1.2, 0.8)\<rparr> gpio =
     (Inr (),
      \<lparr>pins = example_pins, freq = 50, pwm_range = 100, power_val = 80, balance = (1.2, 0.8)\<rparr>,
      gpio @ [Set_PWM_dutycycle 12 96, Set_PWM_dutycycle 13 0,
              Set_PWM_dutycycle 18 64, Set_PWM_dutycycle 19 0])"
proof (intro conjI)
  show "forward \<lparr>pins = main_pins, freq = 50, pwm_range = 100, power_val = 80,
            balance = (1.2, 0.8)\<rparr> gpio =
     (Inl (KeyError ''L_f''),
      \<lparr>pins = main_pins, freq = 50, pwm_range = 100, power_val = 80, balance = (1.2, 0.8)\<rparr>,
      gpio)"
    using set_speed_main_pins [of 80 80 "\<lparr>pins = main_pins, freq = 50, pwm_range = 100,
      power_val = 80, balance = (1.2, 0.8)\<rparr>" gpio]
    by (simp add: forward_def)
  show "forward (fst (init [] main_pins 50 100)) gpio =
     (Inl (KeyError ''L_f''), fst (init [] main_pins 50 100), gpio)"
    using set_speed_main_pins [of 80 80 "fst (init [] main_pins 50 100)" gpio]
    by (simp add: forward_def init_def)
  show "forward \<lparr>pins = example_pins, freq = 50, pwm_range = 100, power_val = 80,
              balance = (1.2, 0.8)\<rparr> gpio =
     (Inr (),
      \<lparr>pins = example_pins, freq = 50, pwm_range = 100, power_val = 80, balance = (1.2, 0.8)\<rparr>,
      gpio @ [Set_PWM_dutycycle 12 96, Set_PWM_dutycycle 13 0,
              Set_PWM_dutycycle 18 64, Set_PWM_dutycycle 19 0])"
    by (simp add: forward_def set_speed_wired getitem_example_pins
        duty_forward_def duty_backward_def)
qed

text \<open>
  C2. The claim: every duty cycle written is at most the configured \<open>pwm_range\<close>. The code
  does otherwise: the balance factor multiplies the power after the power was clamped, and
  nothing clamps the product. A controller built with the default range 100 and the pin
  names that \<open>set_speed\<close> reads, after \<open>adjust_balance(0.5)\<close>, is at power 80 and balance
  (1.5, 0.5), inside the ranges of the claim; \<open>forward\<close> then writes the duty cycle 120
  on pin 12.
\<close>

theorem forward_duty_above_pwm_range:
  "(case init [] example_pins 50 100 of (c, gpio) \<Rightarrow>
     (case adjust_balance 0.5 c gpio of (r, c', gpio') \<Rightarrow>
        (power_val c', balance c', pwm_range c', snd (snd (forward c' gpio'))))) =
   (80, (1.5, 0.5), 100,
    snd (init [] example_pins 50 100) @
      [Set_PWM_dutycycle 12 120, Set_PWM_dutycycle 13 0,
       Set_PWM_dutycycle 18 40, Set_PWM_dutycycle 19 0])"
  by (simp add: init_def adjust_balance_def forward_def set_speed_wired getitem_example_pins
      duty_forward_def duty_backward_def)

subsection \<open>The dispatch loop\<close>

text \<open>
  C9. A turn of the loop on a key outside the table (and other than the exit key) goes on
  to the next read with the controller and the driver log as they were: no state change,
  no call on the driver, no exception.
\<close>

theorem unrecognized_key_is_noop:
  assumes "get ch \<notin> set [''w'', ''s'', ''a'', ''d'', ''q'', ''e'', ''k'', ''l'', '','', ''.'',
                          '' '', ''x'']"
  shows "loop_body ch c gpio = Continue c gpio
    \<and> main_loop (ch # rest) c gpio = main_loop rest c gpio"
  using assms by (simp add: loop_body_def actions_def Let_def)

theorem unrecognized_key_is_noop_witness:
  "get ''Z'' \<notin> set [''w'', ''s'', ''a'', ''d'', ''q'', ''e'', ''k'', ''l'', '','', ''.'',
                     '' '', ''x'']
   \<and> loop_body ''Z'' (fst (init [] main_pins 50 100)) (snd (init [] main_pins 50 100))
       = Continue (fst (init [] main_pins 50 100)) (snd (init [] main_pins 50 100))
   \<and> main_loop [''Z'', ''x''] (fst (init [] main_pins 50 100)) (snd (init [] main_pins 50 100))
       = main_loop [''x''] (fst (init [] main_pins 50 100)) (snd (init [] main_pins 50 100))"
  using unrecognized_key_is_noop [of "''Z''" "fst (init [] main_pins 50 100)"
      "snd (init [] main_pins 50 100)" "[''x'']"]
  by (simp add: get_simps lower_char_def)

subsection \<open>Leaving the main loop\<close>













text \<open>
  The program does leave the loop, and \<open>run\<close> does return, as soon as a read gives the exit
  key: the statements below about the result of \<open>run\<close> are about runs that exist.
\<close>

lemma main_loop_returns:
  "''x'' \<in> set (map get stdin) \<Longrightarrow> \<exists>r. main_loop stdin c gpio = Some r"
proof (induction stdin arbitrary: c gpio)
  case Nil
  then show ?case by simp
next
  case (Cons ch rest)
  show ?case
  proof (cases "get ch = ''x''")
    case True
    then show ?thesis by (simp add: loop_body_def)
  next
    case False
    with Cons.prems have "''x'' \<in> set (map get rest)" by simp
    from Cons.IH [OF this] show ?thesis
      by (cases "loop_body ch c gpio") simp_all
  qed
qed

lemma run_returns: "''x'' \<in> set (map get stdin) \<Longrightarrow> \<exists>r. run ps tty stdin = Some r"
proof -
  assume "''x'' \<in> set (map get stdin)"
  from main_loop_returns [OF this]
  obtain r where "main_loop stdin (fst (init [] ps 50 100)) (snd (init [] ps 50 100)) = Some r"
    by blast
  then show ?thesis
    by (auto simp add: run_def Let_def split: prod.splits sum.splits)
qed







end
